theory Spec2Isabelle
  imports Complex_Main "HOL-Library.Sublist"
begin

section \<open>The cart page (src/frontend/src/app/cart/page.tsx)\<close>

text \<open>
  The page keeps two pieces of React state, \<open>cart\<close> and \<open>total\<close>, mirrors the cart
  in the browser's \<open>localStorage\<close> under the key \<open>cart\<close>, and talks to two external
  services: the order helper \<open>createrOrder\<close> and the endpoint \<open>/api/checkout_sessions\<close>.

  Numbers: a JavaScript number is an IEEE double. It is modelled by a real number, so
  rounding, \<open>NaN\<close>, the infinities and the negative zero are outside the model.
\<close>

subsection \<open>Data\<close>

text \<open>
  A JavaScript primitive value. Only the \<open>price\<close> field needs it: the page asks
  \<open>typeof item.price === 'number'\<close> before it uses the price.
\<close>

datatype jsval = JUndefined | JNull | JBoolean bool | JNumber real | JString string

text \<open>
  Modelled from the spec: the interface \<open>IProduct\<close>, which the page imports from
  \<open>@/interface\<close> and which is not among the sources at hand. It has the fields of the
  specification's line item (\<open>productId\<close>, \<open>name\<close>, \<open>imgUrl\<close>, \<open>price\<close>, \<open>quantity\<close>,
  \<open>stock\<close>), which are the fields the page reads. Each field has the type the page's own
  guards allow for: \<open>productId\<close> may be missing (the buttons test
  \<open>if (product.productId)\<close>), \<open>quantity\<close> may be missing (\<open>item.quantity || 1\<close>) and is a
  number otherwise, \<open>price\<close> is any primitive (the page tests its \<open>typeof\<close>), \<open>stock\<close> is
  a number.
\<close>

record IProduct =
  productId :: "string option"
  name :: string
  imgUrl :: string
  price :: jsval
  quantity :: "real option"
  stock :: real

text \<open>The two payloads built by the page.\<close>

record order_item =
  oi_productId :: "string option"
  oi_quantity :: real

record checkout_item =
  ci_productId :: "string option"
  ci_name :: string
  ci_imgUrl :: string
  ci_price :: jsval
  ci_quantity :: real

datatype js_error = SyntaxError | TypeError | OtherError string

text \<open>The four dialogs the page opens with \<open>Swal.fire\<close>, and their icons.\<close>

datatype dialog = StockInsuficiente | UserIdError | OrderSuccess | OrderError

fun icon :: "dialog \<Rightarrow> string" where
  "icon StockInsuficiente = ''warning''"
| "icon UserIdError = ''error''"
| "icon OrderSuccess = ''success''"
| "icon OrderError = ''error''"

text \<open>The four messages the page writes with \<open>console.error\<close>.\<close>

datatype diagnostic =
    EmptyCart
  | CheckoutSessionError "string option"
  | CaughtError js_error
  | OrderCreationError js_error

text \<open>
  Everything the page does to the outside world, in the order it does it: dialogs,
  navigation, diagnostics, the two network calls and the full-page redirect.
\<close>

datatype effect =
    SwalFire dialog
  | RouterPush string
  | ConsoleError diagnostic
  | CreaterOrder "order_item list" string
  | FetchPost string "checkout_item list"
  | LocationHref "string option"

text \<open>
  The answer of \<open>fetch\<close> followed by \<open>response.json()\<close>: the request fails, or a
  response arrives whose body is not JSON, or a response arrives with \<open>response.ok\<close> and
  the fields \<open>url\<close> and \<open>error\<close> of its body.
\<close>

datatype fetch_result =
    FetchFails js_error
  | BodyFails js_error
  | Response bool "string option" "string option"

record auth_user =
  sub :: "string option"

text \<open>
  The environment of the page, taken as a parameter of every operation: the browser's
  built-ins, the authentication hook \<open>useUser\<close>, and the two services, whose code is not
  among the sources at hand (the helper \<open>createrOrder\<close> of
  \<open>@/components/helpers/orders\<close> and the endpoint \<open>/api/checkout_sessions\<close>).
  \<open>JSON.parse\<close> returns \<open>any\<close>; the page uses the value as \<open>IProduct[]\<close> after testing
  it for truthiness, so the parsed value is a cart or a falsy value (\<open>None\<close>), and a text
  that is not JSON raises. \<open>createrOrder\<close> resolves (\<open>None\<close>) or rejects with an error.
  Writing to the local storage, opening a dialog and navigating are taken to succeed.
\<close>

record env =
  window_localStorage :: bool
  JSON_parse :: "string \<Rightarrow> js_error + IProduct list option"
  JSON_stringify :: "IProduct list \<Rightarrow> string"
  user :: "auth_user option"
  createrOrder :: "order_item list \<Rightarrow> string \<Rightarrow> js_error option"
  fetch :: "string \<Rightarrow> checkout_item list \<Rightarrow> fetch_result"

text \<open>The state of the page: the two React states, the local storage, the effects so far.\<close>

record page =
  cart :: "IProduct list"
  total :: real
  localStorage :: "string \<rightharpoonup> string"
  effects :: "effect list"

subsection \<open>Operations\<close>

text \<open>\<open>item.quantity || 1\<close>: a missing quantity and the number 0 are falsy.\<close>

definition quantity_or_1 :: "IProduct \<Rightarrow> real" where
  "quantity_or_1 item =
     (case quantity item of None \<Rightarrow> 1 | Some q \<Rightarrow> if q = 0 then 1 else q)"

text \<open>\<open>typeof item.price === 'number' ? item.price : 0\<close>\<close>

definition price_or_0 :: "IProduct \<Rightarrow> real" where
  "price_or_0 item = (case price item of JNumber p \<Rightarrow> p | _ \<Rightarrow> 0)"

text \<open>The \<open>reduce\<close> of \<open>calculateTotal\<close>, from the left and starting at 0.\<close>

definition totalCart :: "IProduct list \<Rightarrow> real" where
  "totalCart cartItems =
     foldl (\<lambda>acc item. acc + price_or_0 item * quantity_or_1 item) 0 cartItems"

definition calculateTotal :: "IProduct list \<Rightarrow> page \<Rightarrow> page" where
  "calculateTotal cartItems s = s\<lparr>total := totalCart cartItems\<rparr>"

definition setItem :: "string \<Rightarrow> string \<Rightarrow> page \<Rightarrow> page" where
  "setItem k v s = s\<lparr>localStorage := (localStorage s)(k \<mapsto> v)\<rparr>"

definition updateLocalStorage :: "env \<Rightarrow> IProduct list \<Rightarrow> page \<Rightarrow> page" where
  "updateLocalStorage e updatedCart s = setItem ''cart'' (JSON_stringify e updatedCart) s"

text \<open>
  \<open>localStorage.getItem("cart") || "[]"\<close>: a missing key gives \<open>null\<close>, and the
  empty string is falsy as well.
\<close>

definition storedCartText :: "page \<Rightarrow> string" where
  "storedCartText s =
     (case localStorage s ''cart'' of
        None \<Rightarrow> ''[]''
      | Some t \<Rightarrow> if t = [] then ''[]'' else t)"

definition emit :: "effect \<Rightarrow> page \<Rightarrow> page" where
  "emit x s = s\<lparr>effects := effects s @ [x]\<rparr>"

text \<open>
  The effect at page entry. \<open>JSON.parse\<close> is not inside a \<open>try\<close>, so what it raises
  leaves the effect (\<open>Inl\<close>). \<open>if (storedCart)\<close> skips a falsy value.
\<close>

definition load :: "env \<Rightarrow> page \<Rightarrow> js_error + page" where
  "load e s =
     (if window_localStorage e then
        (case JSON_parse e (storedCartText s) of
           Inl err \<Rightarrow> Inl err
         | Inr None \<Rightarrow> Inr s
         | Inr (Some storedCart) \<Rightarrow>
             Inr (calculateTotal storedCart (s\<lparr>cart := storedCart\<rparr>)))
      else Inr s)"

definition handleRemoveFromCart :: "env \<Rightarrow> string \<Rightarrow> page \<Rightarrow> page" where
  "handleRemoveFromCart e pid s =
     (let updatedCart = filter (\<lambda>product. productId product \<noteq> Some pid) (cart s)
      in updateLocalStorage e updatedCart
           (calculateTotal updatedCart (s\<lparr>cart := updatedCart\<rparr>)))"

text \<open>
  The function mapped over the cart by \<open>handleQuantityChange\<close>: the new item, and the
  dialog it opens when the stock does not allow the change.
\<close>

definition changeItem :: "string \<Rightarrow> real \<Rightarrow> IProduct \<Rightarrow> IProduct \<times> effect list" where
  "changeItem pid delta item =
     (if productId item = Some pid then
        (let newQuantity = quantity_or_1 item + delta
         in if newQuantity > stock item then (item, [SwalFire StockInsuficiente])
            else (item\<lparr>quantity := Some (max newQuantity 1)\<rparr>, []))
      else (item, []))"

definition handleQuantityChange :: "env \<Rightarrow> string \<Rightarrow> real \<Rightarrow> page \<Rightarrow> page" where
  "handleQuantityChange e pid delta s =
     (let prevCart = cart s;
          updatedCart = map (\<lambda>item. fst (changeItem pid delta item)) prevCart;
          dialogs = concat (map (\<lambda>item. snd (changeItem pid delta item)) prevCart)
      in updateLocalStorage e updatedCart
           (calculateTotal updatedCart
              (s\<lparr>cart := updatedCart, effects := effects s @ dialogs\<rparr>)))"

definition orderItems :: "IProduct list \<Rightarrow> order_item list" where
  "orderItems c =
     map (\<lambda>product. \<lparr>oi_productId = productId product,
                      oi_quantity = quantity_or_1 product\<rparr>) c"

text \<open>
  \<open>handleClick\<close>, the direct order, in two parts: \<open>submit\<close> is its body from
  \<open>const orderItems\<close> on, with the \<open>try\<close> and the \<open>catch\<close>; \<open>handleClick\<close> is the
  two guards before it. \<open>!userId\<close> holds of a missing and of an empty \<open>sub\<close>.
\<close>

definition submit :: "env \<Rightarrow> string \<Rightarrow> page \<Rightarrow> page" where
  "submit e userId s =
     (let items = orderItems (cart s);
          s1 = emit (CreaterOrder items userId) s
      in case createrOrder e items userId of
           None \<Rightarrow>
             emit (RouterPush ''/home'')
               (emit (SwalFire OrderSuccess)
                  (updateLocalStorage e [] (s1\<lparr>cart := [], total := 0\<rparr>)))
         | Some err \<Rightarrow>
             emit (SwalFire OrderError) (emit (ConsoleError (OrderCreationError err)) s1))"

definition handleClick :: "env \<Rightarrow> page \<Rightarrow> page" where
  "handleClick e s =
     (case user e of
        None \<Rightarrow> emit (RouterPush ''/api/auth/login'') s
      | Some u \<Rightarrow>
          (case sub u of
             None \<Rightarrow> emit (SwalFire UserIdError) s
           | Some userId \<Rightarrow>
               if userId = [] then emit (SwalFire UserIdError) s
               else submit e userId s))"

definition checkoutPayload :: "IProduct list \<Rightarrow> checkout_item list" where
  "checkoutPayload cartItems =
     map (\<lambda>item. \<lparr>ci_productId = productId item, ci_name = name item,
                   ci_imgUrl = imgUrl item, ci_price = price item,
                   ci_quantity = quantity_or_1 item\<rparr>) cartItems"

text \<open>
  \<open>handleCheckout\<close>: the whole body is inside \<open>try\<close>, and the \<open>catch\<close> only logs.
  The React state is neither read nor written: the items come from the local storage.
\<close>

definition handleCheckout :: "env \<Rightarrow> page \<Rightarrow> page" where
  "handleCheckout e s =
     (case JSON_parse e (storedCartText s) of
        Inl err \<Rightarrow> emit (ConsoleError (CaughtError err)) s
      | Inr None \<Rightarrow> emit (ConsoleError EmptyCart) s
      | Inr (Some cartItems) \<Rightarrow>
          if length cartItems = 0 then emit (ConsoleError EmptyCart) s
          else
            (let body = checkoutPayload cartItems;
                 s1 = emit (FetchPost ''/api/checkout_sessions'' body) s
             in case fetch e ''/api/checkout_sessions'' body of
                  FetchFails err \<Rightarrow> emit (ConsoleError (CaughtError err)) s1
                | BodyFails err \<Rightarrow> emit (ConsoleError (CaughtError err)) s1
                | Response ok url error \<Rightarrow>
                    if ok then
                      emit (LocationHref url)
                        (setItem ''checkoutItems'' (JSON_stringify e cartItems) s1)
                    else emit (ConsoleError (CheckoutSessionError error)) s1))"

subsection \<open>The total as the specification words it\<close>

text \<open>
  "Sum over line items of price \<times> quantity", read on the fields as they are: it is
  defined when every price is a number and every quantity is present, as they are in the
  line items of the specification's data model (a numeric price, a quantity of at least 1
  and at most the stock).
\<close>

fun spec_total :: "IProduct list \<Rightarrow> real option" where
  "spec_total [] = Some 0"
| "spec_total (item # items) =
     (case (price item, quantity item, spec_total items) of
        (JNumber p, Some q, Some t) \<Rightarrow> Some (p * q + t)
      | _ \<Rightarrow> None)"

subsection \<open>The states the page can be in\<close>

text \<open>
  The page starts with an empty cart and a total of 0, whatever the local storage holds,
  and then runs its effect and its handlers, each time in some environment.
\<close>

inductive reachable :: "page \<Rightarrow> bool" where
  init: "reachable \<lparr>cart = [], total = 0, localStorage = st, effects = []\<rparr>"
| loaded: "reachable s \<Longrightarrow> load e s = Inr s' \<Longrightarrow> reachable s'"
| removed: "reachable s \<Longrightarrow> reachable (handleRemoveFromCart e pid s)"
| changed: "reachable s \<Longrightarrow> reachable (handleQuantityChange e pid delta s)"
| clicked: "reachable s \<Longrightarrow> reachable (handleClick e s)"
| checked_out: "reachable s \<Longrightarrow> reachable (handleCheckout e s)"

subsection \<open>Examples\<close>

text \<open>The cart of the specification's scenario, and the text \<open>JSON.stringify\<close> makes of it.\<close>

definition itemA :: IProduct where
  "itemA = \<lparr>productId = Some ''A'', name = ''Malbec'', imgUrl = ''/a.png'',
             price = JNumber 5, quantity = Some 2, stock = 5\<rparr>"

definition itemB :: IProduct where
  "itemB = \<lparr>productId = Some ''B'', name = ''Syrah'', imgUrl = ''/b.png'',
             price = JNumber 3, quantity = Some 1, stock = 2\<rparr>"

definition textA :: string where
  \<open>textA = ''{"productId":"A","name":"Malbec","imgUrl":"/a.png","price":5,"quantity":2,"stock":5}''\<close>

definition textB :: string where
  \<open>textB = ''{"productId":"B","name":"Syrah","imgUrl":"/b.png","price":3,"quantity":1,"stock":2}''\<close>

definition textAB :: string where
  "textAB = ''['' @ textA @ '','' @ textB @ '']''"

text \<open>
  An environment for the examples. Its \<open>JSON.parse\<close> and \<open>JSON.stringify\<close> are tables:
  they agree with the browser's on the texts \<open>[]\<close>, \<open>null\<close>, \<open>{\<close> (which is not JSON)
  and the two texts of the scenario, and on the carts \<open>[]\<close>, \<open>[itemB]\<close> and
  \<open>[itemA, itemB]\<close>, and the examples read what they return only there. The theorems
  below do not depend on them: they hold in every environment.
\<close>

definition example_parse :: "string \<Rightarrow> js_error + IProduct list option" where
  "example_parse t =
     (if t = ''[]'' then Inr (Some [])
      else if t = ''null'' then Inr None
      else if t = textAB then Inr (Some [itemA, itemB])
      else if t = ''['' @ textB @ '']'' then Inr (Some [itemB])
      else Inl SyntaxError)"

definition example_stringify :: "IProduct list \<Rightarrow> string" where
  "example_stringify c =
     (if c = [] then ''[]''
      else if c = [itemB] then ''['' @ textB @ '']''
      else textAB)"

definition example_env :: env where
  "example_env =
     \<lparr>window_localStorage = True,
      JSON_parse = example_parse,
      JSON_stringify = example_stringify,
      user = Some \<lparr>sub = Some ''auth0|42''\<rparr>,
      createrOrder = (\<lambda>items userId. None),
      fetch = (\<lambda>url body. Response True (Some ''https://pay.example/session'') None)\<rparr>"

definition example_page :: page where
  "example_page =
     \<lparr>cart = [itemA, itemB], total = 13,
      localStorage = [''cart'' \<mapsto> textAB], effects = []\<rparr>"

text \<open>An item whose quantity is the number 0.\<close>

definition item_q0 :: IProduct where
  "item_q0 = \<lparr>productId = Some ''A'', name = ''Malbec'', imgUrl = ''/a.png'',
               price = JNumber 5, quantity = Some 0, stock = 5\<rparr>"

text \<open>
  The page at entry with an empty local storage, and three more environments: nobody is
  logged in; the user has no \<open>sub\<close>; both services fail.
\<close>

definition empty_page :: page where
  "empty_page = \<lparr>cart = [], total = 0, localStorage = Map.empty, effects = []\<rparr>"

definition anonymous_env :: env where
  "anonymous_env = example_env\<lparr>user := None\<rparr>"

definition no_sub_env :: env where
  "no_sub_env = example_env\<lparr>user := Some \<lparr>sub = None\<rparr>\<rparr>"

definition offline_env :: env where
  "offline_env =
     example_env\<lparr>createrOrder := (\<lambda>items userId. Some (OtherError ''Network Error'')),
                 fetch := (\<lambda>url body. FetchFails (OtherError ''Failed to fetch''))\<rparr>"

text \<open>
  An item without a quantity and with a price that is a string, and the page whose
  persisted cart is the text \<open>{\<close>.
\<close>

definition item_bare :: IProduct where
  "item_bare = \<lparr>productId = Some ''C'', name = ''Torrontes'', imgUrl = ''/c.png'',
                 price = JString ''12'', quantity = None, stock = 4\<rparr>"

definition broken_page :: page where
  "broken_page = \<lparr>cart = [], total = 0, localStorage = [''cart'' \<mapsto> ''{''], effects = []\<rparr>"

text \<open>The last unit in stock, already in the cart (a scenario of the specification).\<close>

definition item_last :: IProduct where
  "item_last = \<lparr>productId = Some ''A'', name = ''Malbec'', imgUrl = ''/a.png'',
                 price = JNumber 10, quantity = Some 1, stock = 1\<rparr>"

section \<open>Properties\<close>

subsection \<open>The total\<close>

lemma foldl_plus_sum_list:
  fixes a :: real
  shows "foldl (\<lambda>acc item. acc + f item) a items = a + (\<Sum>item\<leftarrow>items. f item)"
  by (induction items arbitrary: a) simp_all

lemma totalCart_sum_list:
  "totalCart items = (\<Sum>item\<leftarrow>items. price_or_0 item * quantity_or_1 item)"
  by (simp add: totalCart_def foldl_plus_sum_list)

lemma totalCart_Nil: "totalCart [] = 0"
  by (simp add: totalCart_def)

lemma totalCart_Cons:
  "totalCart (item # items) = price_or_0 item * quantity_or_1 item + totalCart items"
  by (simp add: totalCart_sum_list)

lemma totalCart_append: "totalCart (xs @ ys) = totalCart xs + totalCart ys"
  by (simp add: totalCart_sum_list)

lemma spec_total_agrees:
  "\<forall>item\<in>set items. (\<exists>p. price item = JNumber p) \<and> (\<exists>q. quantity item = Some q \<and> q \<noteq> 0)
   \<Longrightarrow> spec_total items = Some (totalCart items)"
proof (induction items)
  case Nil
  show ?case by (simp add: totalCart_Nil)
next
  case (Cons item items)
  from Cons.prems obtain p q
    where pq: "price item = JNumber p" "quantity item = Some q" "q \<noteq> 0"
    by auto
  from Cons have "spec_total items = Some (totalCart items)" by simp
  with pq show ?case
    by (simp add: totalCart_Cons price_or_0_def quantity_or_1_def)
qed

text \<open>
  Claim C3: for every sequence of line items (each with a numeric price and a quantity of at
  least 1, as in the specification's data model) the computed total is the sum over the
  items of price \<times> quantity, and the total of the empty sequence is 0.
\<close>

theorem totalCart_is_sum:
  assumes "\<forall>item\<in>set items. (\<exists>p. price item = JNumber p)
                              \<and> (\<exists>q. quantity item = Some q \<and> 1 \<le> q)"
  shows "spec_total items = Some (totalCart items) \<and> totalCart [] = 0"
proof
  from assms have "\<forall>item\<in>set items. (\<exists>p. price item = JNumber p)
                              \<and> (\<exists>q. quantity item = Some q \<and> q \<noteq> 0)"
    by fastforce
  then show "spec_total items = Some (totalCart items)"
    by (rule spec_total_agrees)
  show "totalCart [] = 0"
    by (rule totalCart_Nil)
qed

theorem totalCart_is_sum_witness:
  "price itemA = JNumber 5 \<and> quantity itemA = Some 2
   \<and> price itemB = JNumber 3 \<and> quantity itemB = Some 1
   \<and> spec_total [itemA, itemB] = Some 13 \<and> totalCart [itemA, itemB] = 13"
proof -
  have h: "\<forall>item\<in>set [itemA, itemB]. (\<exists>p. price item = JNumber p)
                                      \<and> (\<exists>q. quantity item = Some q \<and> 1 \<le> q)"
    by (simp add: itemA_def itemB_def)
  have t: "totalCart [itemA, itemB] = 13"
    by (simp add: totalCart_def itemA_def itemB_def price_or_0_def quantity_or_1_def)
  from totalCart_is_sum [OF h]
  have "spec_total [itemA, itemB] = Some (totalCart [itemA, itemB])" by blast
  with t show ?thesis by (simp add: itemA_def itemB_def)
qed

subsection \<open>Changing a quantity\<close>

lemma handleQuantityChange_cart:
  "cart (handleQuantityChange e pid delta s) =
     map (\<lambda>item. fst (changeItem pid delta item)) (cart s)"
  by (simp add: handleQuantityChange_def updateLocalStorage_def setItem_def calculateTotal_def Let_def)

lemma handleQuantityChange_effects:
  "effects (handleQuantityChange e pid delta s) =
     effects s @ concat (map (\<lambda>item. snd (changeItem pid delta item)) (cart s))"
  by (simp add: handleQuantityChange_def updateLocalStorage_def setItem_def calculateTotal_def Let_def)

lemma handleQuantityChange_total:
  "total (handleQuantityChange e pid delta s) = totalCart (cart (handleQuantityChange e pid delta s))"
  by (simp add: handleQuantityChange_def updateLocalStorage_def setItem_def calculateTotal_def Let_def)

lemma handleQuantityChange_localStorage:
  "localStorage (handleQuantityChange e pid delta s) =
     (localStorage s)(''cart'' \<mapsto> JSON_stringify e (cart (handleQuantityChange e pid delta s)))"
  by (simp add: handleQuantityChange_def updateLocalStorage_def setItem_def calculateTotal_def Let_def)

lemma changeItem_rejected:
  "productId item = Some pid \<Longrightarrow> quantity_or_1 item + delta > stock item
   \<Longrightarrow> changeItem pid delta item = (item, [SwalFire StockInsuficiente])"
  by (simp add: changeItem_def)

lemma changeItem_committed:
  "productId item = Some pid \<Longrightarrow> quantity_or_1 item + delta \<le> stock item
   \<Longrightarrow> changeItem pid delta item =
         (item\<lparr>quantity := Some (max (quantity_or_1 item + delta) 1)\<rparr>, [])"
  by (simp add: changeItem_def Let_def)

lemma changeItem_other:
  "productId item \<noteq> Some pid \<Longrightarrow> changeItem pid delta item = (item, [])"
  by (simp add: changeItem_def)

lemma dialogs_member:
  "i < length c \<Longrightarrow> x \<in> set (f (c ! i)) \<Longrightarrow> x \<in> set (concat (map f c))"
  using nth_mem [of i c] by auto

text \<open>
  What \<open>handleQuantityChange\<close> does to an item of the given productId, whatever its
  fields: the cart keeps its length, so the item stays at its index.
\<close>

lemma handleQuantityChange_item:
  assumes "i < length (cart s)" and "productId (cart s ! i) = Some pid"
  shows "length (cart (handleQuantityChange e pid delta s)) = length (cart s)
    \<and> (quantity_or_1 (cart s ! i) + delta > stock (cart s ! i) \<longrightarrow>
         cart (handleQuantityChange e pid delta s) ! i = cart s ! i
         \<and> SwalFire StockInsuficiente
             \<in> set (drop (length (effects s)) (effects (handleQuantityChange e pid delta s)))
         \<and> icon StockInsuficiente = ''warning'')
    \<and> (quantity_or_1 (cart s ! i) + delta \<le> stock (cart s ! i) \<longrightarrow>
         cart (handleQuantityChange e pid delta s) ! i
           = (cart s ! i)\<lparr>quantity := Some (max (quantity_or_1 (cart s ! i) + delta) 1)\<rparr>
         \<and> 1 \<le> max (quantity_or_1 (cart s ! i) + delta) 1
         \<and> (1 \<le> stock (cart s ! i) \<longrightarrow>
               max (quantity_or_1 (cart s ! i) + delta) 1 \<le> stock (cart s ! i)))"
proof (intro conjI impI)
  show "length (cart (handleQuantityChange e pid delta s)) = length (cart s)"
    by (simp add: handleQuantityChange_cart)
next
  assume r: "quantity_or_1 (cart s ! i) + delta > stock (cart s ! i)"
  from assms r show "cart (handleQuantityChange e pid delta s) ! i = cart s ! i"
    by (simp add: handleQuantityChange_cart changeItem_rejected)
  from assms r have "SwalFire StockInsuficiente \<in> set (snd (changeItem pid delta (cart s ! i)))"
    by (simp add: changeItem_rejected)
  with assms(1) have "SwalFire StockInsuficiente
      \<in> set (concat (map (\<lambda>item. snd (changeItem pid delta item)) (cart s)))"
    by (rule dialogs_member)
  then show "SwalFire StockInsuficiente
      \<in> set (drop (length (effects s)) (effects (handleQuantityChange e pid delta s)))"
    by (simp add: handleQuantityChange_effects)
  show "icon StockInsuficiente = ''warning''" by simp
next
  assume a: "quantity_or_1 (cart s ! i) + delta \<le> stock (cart s ! i)"
  from assms a show "cart (handleQuantityChange e pid delta s) ! i
           = (cart s ! i)\<lparr>quantity := Some (max (quantity_or_1 (cart s ! i) + delta) 1)\<rparr>"
    by (simp add: handleQuantityChange_cart changeItem_committed)
  show "1 \<le> max (quantity_or_1 (cart s ! i) + delta) 1" by simp
  assume "1 \<le> stock (cart s ! i)"
  with a show "max (quantity_or_1 (cart s ! i) + delta) 1 \<le> stock (cart s ! i)" by simp
qed

lemma quantity_or_1_present: "quantity item = Some q \<Longrightarrow> 1 \<le> q \<Longrightarrow> quantity_or_1 item = q"
  by (simp add: quantity_or_1_def)

lemma changeItem_keeps_bounds:
  assumes "quantity item = Some q" and "1 \<le> q" and "q \<le> stock item"
  shows "\<exists>q'. quantity (fst (changeItem pid delta item)) = Some q' \<and> 1 \<le> q'
             \<and> q' \<le> stock (fst (changeItem pid delta item))"
  using assms by (auto simp: changeItem_def Let_def quantity_or_1_def)

text \<open>
  The data model's invariant, \<open>1 \<le> quantity \<le> stock\<close> for every item of the cart, is
  kept by every change of quantity, whatever the productId and the delta.
\<close>

lemma handleQuantityChange_keeps_invariant:
  assumes "\<forall>item\<in>set (cart s). \<exists>q. quantity item = Some q \<and> 1 \<le> q \<and> q \<le> stock item"
  shows "\<forall>item\<in>set (cart (handleQuantityChange e pid delta s)).
           \<exists>q. quantity item = Some q \<and> 1 \<le> q \<and> q \<le> stock item"
proof
  fix item'
  assume "item' \<in> set (cart (handleQuantityChange e pid delta s))"
  then obtain item where i: "item \<in> set (cart s)" "item' = fst (changeItem pid delta item)"
    by (auto simp: handleQuantityChange_cart)
  from assms i(1) obtain q where "quantity item = Some q" "1 \<le> q" "q \<le> stock item"
    by blast
  then show "\<exists>q. quantity item' = Some q \<and> 1 \<le> q \<and> q \<le> stock item'"
    unfolding i(2) by (rule changeItem_keeps_bounds)
qed

text \<open>
  Claim C1: for every cart state and every item of it with the given productId (an item of
  the data model: its quantity \<open>q\<close> is present and \<open>1 \<le> q \<le> stock\<close>), and for every
  delta, with \<open>newQuantity = q + delta\<close>: if \<open>newQuantity\<close> exceeds the stock, the item is
  unchanged and the warning dialog is opened; otherwise the committed quantity is
  \<open>max(newQuantity, 1)\<close>. Either way the quantity of the item afterwards is at least 1 and
  at most the item's stock, which is unchanged.
\<close>

theorem handleQuantityChange_bounds:
  assumes "i < length (cart s)" and "productId (cart s ! i) = Some pid"
    and "quantity (cart s ! i) = Some q" and "1 \<le> q" and "q \<le> stock (cart s ! i)"
  shows "(q + delta > stock (cart s ! i) \<longrightarrow>
           cart (handleQuantityChange e pid delta s) ! i = cart s ! i
           \<and> SwalFire StockInsuficiente
               \<in> set (drop (length (effects s)) (effects (handleQuantityChange e pid delta s)))
           \<and> icon StockInsuficiente = ''warning'')
    \<and> (q + delta \<le> stock (cart s ! i) \<longrightarrow>
           cart (handleQuantityChange e pid delta s) ! i
             = (cart s ! i)\<lparr>quantity := Some (max (q + delta) 1)\<rparr>)
    \<and> (\<exists>q'. quantity (cart (handleQuantityChange e pid delta s) ! i) = Some q'
             \<and> 1 \<le> q' \<and> q' \<le> stock (cart s ! i))
    \<and> stock (cart (handleQuantityChange e pid delta s) ! i) = stock (cart s ! i)
    \<and> length (cart (handleQuantityChange e pid delta s)) = length (cart s)"
proof -
  from assms(3,4) have q: "quantity_or_1 (cart s ! i) = q"
    by (rule quantity_or_1_present)
  note g = handleQuantityChange_item [OF assms(1,2), where delta = delta and e = e, unfolded q]
  show ?thesis
  proof (cases "q + delta > stock (cart s ! i)")
    case True
    with g have "cart (handleQuantityChange e pid delta s) ! i = cart s ! i" by simp
    with g True assms(3,4,5) show ?thesis by simp
  next
    case False
    with g have c: "cart (handleQuantityChange e pid delta s) ! i
             = (cart s ! i)\<lparr>quantity := Some (max (q + delta) 1)\<rparr>"
      by simp
    from False assms(4,5) have "max (q + delta) 1 \<le> stock (cart s ! i)" by simp
    with g False c show ?thesis by simp
  qed
qed

theorem handleQuantityChange_bounds_witness:
  "(1::nat) < length (cart example_page)
   \<and> productId (cart example_page ! 1) = Some ''B''
   \<and> quantity (cart example_page ! 1) = Some 1
   \<and> (1::real) \<le> stock (cart example_page ! 1)
   \<and> cart (handleQuantityChange example_env ''B'' 1 example_page) ! 1
       = itemB\<lparr>quantity := Some 2\<rparr>
   \<and> cart (handleQuantityChange example_env ''B'' 2 example_page) ! 1 = itemB
   \<and> SwalFire StockInsuficiente
       \<in> set (drop (length (effects example_page))
                (effects (handleQuantityChange example_env ''B'' 2 example_page)))"
proof -
  have i: "(1::nat) < length (cart example_page)"
    by (simp add: example_page_def)
  have p: "productId (cart example_page ! 1) = Some ''B''"
    by (simp add: example_page_def itemB_def)
  have b: "cart example_page ! 1 = itemB"
    by (simp add: example_page_def)
  have q: "quantity (cart example_page ! 1) = Some 1"
    by (simp add: example_page_def itemB_def)
  have o: "(1::real) \<le> 1" by simp
  have st: "(1::real) \<le> stock (cart example_page ! 1)"
    by (simp add: example_page_def itemB_def)
  have st2: "stock itemB = 2"
    by (simp add: itemB_def)
  from handleQuantityChange_bounds [OF i p q o st, where delta = 1 and e = example_env] b st2
  have c: "cart (handleQuantityChange example_env ''B'' 1 example_page) ! 1
       = itemB\<lparr>quantity := Some 2\<rparr>"
    by simp
  from handleQuantityChange_bounds [OF i p q o st, where delta = 2 and e = example_env] b st2
  have r: "cart (handleQuantityChange example_env ''B'' 2 example_page) ! 1 = itemB
   \<and> SwalFire StockInsuficiente
       \<in> set (drop (length (effects example_page))
                (effects (handleQuantityChange example_env ''B'' 2 example_page)))"
    by simp
  from i p q st c r show ?thesis by blast
qed

text \<open>
  The specification's scenario: one unit in the cart, one in stock, and one more asked for.
  The quantity stays 1, the warning is shown, and the total stays 10.
\<close>

lemma scenario_no_more_stock:
  "handleQuantityChange e ''A'' 1
     \<lparr>cart = [item_last], total = 10, localStorage = st, effects = []\<rparr>
   = \<lparr>cart = [item_last], total = 10,
      localStorage = st(''cart'' \<mapsto> JSON_stringify e [item_last]),
      effects = [SwalFire StockInsuficiente]\<rparr>"
  by (simp add: handleQuantityChange_def changeItem_def quantity_or_1_def item_last_def
      updateLocalStorage_def setItem_def calculateTotal_def totalCart_def price_or_0_def Let_def)

subsection \<open>Removing an item\<close>

lemma handleRemoveFromCart_cart:
  "cart (handleRemoveFromCart e pid s) =
     filter (\<lambda>product. productId product \<noteq> Some pid) (cart s)"
  by (simp add: handleRemoveFromCart_def updateLocalStorage_def setItem_def
      calculateTotal_def Let_def)

lemma handleRemoveFromCart_total:
  "total (handleRemoveFromCart e pid s) = totalCart (cart (handleRemoveFromCart e pid s))"
  by (simp add: handleRemoveFromCart_def updateLocalStorage_def setItem_def
      calculateTotal_def Let_def)

lemma handleRemoveFromCart_localStorage:
  "localStorage (handleRemoveFromCart e pid s) =
     (localStorage s)(''cart'' \<mapsto> JSON_stringify e (cart (handleRemoveFromCart e pid s)))"
  by (simp add: handleRemoveFromCart_def updateLocalStorage_def setItem_def
      calculateTotal_def Let_def)

lemma handleRemoveFromCart_effects:
  "effects (handleRemoveFromCart e pid s) = effects s"
  by (simp add: handleRemoveFromCart_def updateLocalStorage_def setItem_def
      calculateTotal_def Let_def)

lemma filter_distinct_key:
  "distinct (map f xs) \<Longrightarrow> k \<in> f ` set xs
   \<Longrightarrow> length (filter (\<lambda>x. f x \<noteq> k) xs) + 1 = length xs"
proof (induction xs)
  case Nil
  then show ?case by simp
next
  case (Cons x xs)
  show ?case
  proof (cases "f x = k")
    case True
    with Cons.prems have "k \<notin> f ` set xs" by auto
    then have "filter (\<lambda>x. f x \<noteq> k) xs = xs" by (auto simp: filter_id_conv)
    with True show ?thesis by simp
  next
    case False
    with Cons show ?thesis by auto
  qed
qed

text \<open>
  Claim C7: for every cart state (the total being the total of the cart, as it is in every
  state the page reaches) and every productId that no item of the cart has, removing it
  leaves the cart sequence and the total unchanged and raises nothing: the handler returns
  a state, and opens no dialog.
\<close>

theorem handleRemoveFromCart_absent:
  assumes "\<forall>product\<in>set (cart s). productId product \<noteq> Some pid"
    and "total s = totalCart (cart s)"
  shows "cart (handleRemoveFromCart e pid s) = cart s
     \<and> total (handleRemoveFromCart e pid s) = total s
     \<and> effects (handleRemoveFromCart e pid s) = effects s"
  using assms
  by (simp add: handleRemoveFromCart_cart handleRemoveFromCart_total
      handleRemoveFromCart_effects filter_id_conv)

text \<open>
  Claim C8: for every cart state and every productId that an item of the cart has, removing
  it yields the cart without the items of that productId, the others in their order; the
  cart gets shorter, by exactly one item when the productIds of the cart are distinct; the
  total is recomputed over the remaining items and the persisted cart is rewritten to the
  text of the remaining items.
\<close>

theorem handleRemoveFromCart_present:
  assumes "Some pid \<in> productId ` set (cart s)"
  shows "cart (handleRemoveFromCart e pid s)
           = filter (\<lambda>product. productId product \<noteq> Some pid) (cart s)
     \<and> subseq (cart (handleRemoveFromCart e pid s)) (cart s)
     \<and> set (cart (handleRemoveFromCart e pid s))
           = {product \<in> set (cart s). productId product \<noteq> Some pid}
     \<and> length (cart (handleRemoveFromCart e pid s)) < length (cart s)
     \<and> (distinct (map productId (cart s)) \<longrightarrow>
           length (cart (handleRemoveFromCart e pid s)) + 1 = length (cart s))
     \<and> total (handleRemoveFromCart e pid s)
           = totalCart (cart (handleRemoveFromCart e pid s))
     \<and> localStorage (handleRemoveFromCart e pid s)
           = (localStorage s)(''cart'' \<mapsto>
                JSON_stringify e (cart (handleRemoveFromCart e pid s)))"
proof (intro conjI impI)
  show "cart (handleRemoveFromCart e pid s)
           = filter (\<lambda>product. productId product \<noteq> Some pid) (cart s)"
    by (rule handleRemoveFromCart_cart)
  show "subseq (cart (handleRemoveFromCart e pid s)) (cart s)"
    by (simp add: handleRemoveFromCart_cart)
  show "set (cart (handleRemoveFromCart e pid s))
           = {product \<in> set (cart s). productId product \<noteq> Some pid}"
    by (simp add: handleRemoveFromCart_cart)
  from assms obtain product where "product \<in> set (cart s)" "productId product = Some pid"
    by auto
  then show "length (cart (handleRemoveFromCart e pid s)) < length (cart s)"
    unfolding handleRemoveFromCart_cart by (intro length_filter_less [of product]) simp_all
  show "total (handleRemoveFromCart e pid s)
           = totalCart (cart (handleRemoveFromCart e pid s))"
    by (rule handleRemoveFromCart_total)
  show "localStorage (handleRemoveFromCart e pid s)
           = (localStorage s)(''cart'' \<mapsto>
                JSON_stringify e (cart (handleRemoveFromCart e pid s)))"
    by (rule handleRemoveFromCart_localStorage)
next
  assume "distinct (map productId (cart s))"
  with assms show "length (cart (handleRemoveFromCart e pid s)) + 1 = length (cart s)"
    unfolding handleRemoveFromCart_cart by (rule filter_distinct_key [rotated])
qed

theorem handleRemoveFromCart_absent_witness:
  "productId itemA \<noteq> Some ''Z'' \<and> productId itemB \<noteq> Some ''Z''
   \<and> total example_page = totalCart (cart example_page)
   \<and> cart (handleRemoveFromCart example_env ''Z'' example_page) = [itemA, itemB]
   \<and> total (handleRemoveFromCart example_env ''Z'' example_page) = 13"
proof -
  have a: "\<forall>product\<in>set (cart example_page). productId product \<noteq> Some ''Z''"
    by (simp add: example_page_def itemA_def itemB_def)
  have t: "total example_page = totalCart (cart example_page)"
    by (simp add: example_page_def totalCart_def itemA_def itemB_def
        price_or_0_def quantity_or_1_def)
  from handleRemoveFromCart_absent [OF a t, of example_env]
  have "cart (handleRemoveFromCart example_env ''Z'' example_page) = [itemA, itemB]
   \<and> total (handleRemoveFromCart example_env ''Z'' example_page) = 13"
    by (simp add: example_page_def)
  with a t show ?thesis by (simp add: example_page_def)
qed

theorem handleRemoveFromCart_present_witness:
  "Some ''A'' \<in> productId ` set (cart example_page)
   \<and> cart (handleRemoveFromCart example_env ''A'' example_page) = [itemB]
   \<and> total (handleRemoveFromCart example_env ''A'' example_page) = 3
   \<and> localStorage (handleRemoveFromCart example_env ''A'' example_page) ''cart''
       = Some (''['' @ textB @ '']'')"
proof -
  have a: "Some ''A'' \<in> productId ` set (cart example_page)"
    by (simp add: example_page_def itemA_def)
  have f: "filter (\<lambda>product. productId product \<noteq> Some ''A'') (cart example_page) = [itemB]"
    by (simp add: example_page_def itemA_def itemB_def)
  have t: "totalCart [itemB] = 3"
    by (simp add: totalCart_def itemB_def price_or_0_def quantity_or_1_def)
  have j: "JSON_stringify example_env [itemB] = ''['' @ textB @ '']''"
    by (simp add: example_env_def example_stringify_def)
  from handleRemoveFromCart_present [OF a, of example_env] f
  have c: "cart (handleRemoveFromCart example_env ''A'' example_page) = [itemB]"
    by simp
  from handleRemoveFromCart_present [OF a, of example_env] c t j
  have "total (handleRemoveFromCart example_env ''A'' example_page) = 3
   \<and> localStorage (handleRemoveFromCart example_env ''A'' example_page) ''cart''
       = Some (''['' @ textB @ '']'')"
    by simp
  with a c show ?thesis by blast
qed

subsection \<open>Facts about the examples\<close>

lemma textAB_not_brackets: "textAB \<noteq> ''[]''" "textAB \<noteq> ''null''" "textAB \<noteq> []"
  by (simp_all add: textAB_def textA_def)

lemma example_parse_textAB: "example_parse textAB = Inr (Some [itemA, itemB])"
  by (simp add: example_parse_def textAB_not_brackets)

lemma example_parse_brackets: "example_parse ''[]'' = Inr (Some [])"
  by (simp add: example_parse_def)

lemma example_parse_brace: "example_parse ''{'' = Inl SyntaxError"
  by (simp add: example_parse_def textAB_def textA_def)

lemma example_stringify_Nil: "example_stringify [] = ''[]''"
  by (simp add: example_stringify_def)

lemma example_stringify_AB: "example_stringify [itemA, itemB] = textAB"
  by (simp add: example_stringify_def)

lemma storedCartText_example_page: "storedCartText example_page = textAB"
  by (simp add: storedCartText_def example_page_def textAB_not_brackets)

subsection \<open>The direct order\<close>

lemma submit_resolves:
  "createrOrder e (orderItems (cart s)) userId = None \<Longrightarrow>
   submit e userId s =
     s\<lparr>cart := [], total := 0,
       localStorage := (localStorage s)(''cart'' \<mapsto> JSON_stringify e []),
       effects := effects s @ [CreaterOrder (orderItems (cart s)) userId,
                               SwalFire OrderSuccess, RouterPush ''/home'']\<rparr>"
  by (simp add: submit_def Let_def emit_def updateLocalStorage_def setItem_def)

lemma submit_rejects:
  "createrOrder e (orderItems (cart s)) userId = Some err \<Longrightarrow>
   submit e userId s =
     s\<lparr>effects := effects s @ [CreaterOrder (orderItems (cart s)) userId,
                               ConsoleError (OrderCreationError err),
                               SwalFire OrderError]\<rparr>"
  by (simp add: submit_def Let_def emit_def)

lemma handleClick_no_user:
  "user e = None \<Longrightarrow>
   handleClick e s = s\<lparr>effects := effects s @ [RouterPush ''/api/auth/login'']\<rparr>"
  by (simp add: handleClick_def emit_def)

lemma handleClick_no_userId:
  "user e = Some u \<Longrightarrow> sub u = None \<or> sub u = Some [] \<Longrightarrow>
   handleClick e s = s\<lparr>effects := effects s @ [SwalFire UserIdError]\<rparr>"
  by (auto simp: handleClick_def emit_def)

lemma handleClick_submit:
  "user e = Some u \<Longrightarrow> sub u = Some userId \<Longrightarrow> userId \<noteq> [] \<Longrightarrow>
   handleClick e s = submit e userId s"
  by (simp add: handleClick_def)

lemma submit_effects:
  "\<exists>rest. effects (submit e userId s)
            = effects s @ CreaterOrder (orderItems (cart s)) userId # rest
          \<and> (\<forall>items uid. CreaterOrder items uid \<notin> set rest)"
proof (cases "createrOrder e (orderItems (cart s)) userId")
  case None
  then show ?thesis by (simp add: submit_resolves)
next
  case (Some err)
  then show ?thesis by (simp add: submit_rejects)
qed

text \<open>
  Claim C4: for every cart state and every authenticated user whose identifier resolves
  (\<open>sub\<close> is present and not empty): if \<open>createrOrder\<close> resolves, then afterwards the cart
  is empty, the total is 0 and the persisted cart is the text of the empty sequence; if it
  rejects, then the cart, the total and the whole local storage are unchanged.
\<close>

theorem handleClick_order_outcome:
  assumes "user e = Some u" and "sub u = Some userId" and "userId \<noteq> []"
  shows "(createrOrder e (orderItems (cart s)) userId = None \<longrightarrow>
            cart (handleClick e s) = [] \<and> total (handleClick e s) = 0
            \<and> localStorage (handleClick e s)
                = (localStorage s)(''cart'' \<mapsto> JSON_stringify e [])
            \<and> effects (handleClick e s)
                = effects s @ [CreaterOrder (orderItems (cart s)) userId,
                               SwalFire OrderSuccess, RouterPush ''/home''])
       \<and> (\<forall>err. createrOrder e (orderItems (cart s)) userId = Some err \<longrightarrow>
            cart (handleClick e s) = cart s \<and> total (handleClick e s) = total s
            \<and> localStorage (handleClick e s) = localStorage s
            \<and> effects (handleClick e s)
                = effects s @ [CreaterOrder (orderItems (cart s)) userId,
                               ConsoleError (OrderCreationError err),
                               SwalFire OrderError])"
  using assms by (simp add: handleClick_submit submit_resolves submit_rejects)

theorem handleClick_order_outcome_witness:
  "user example_env = Some \<lparr>sub = Some ''auth0|42''\<rparr>
   \<and> cart (handleClick example_env example_page) = []
   \<and> total (handleClick example_env example_page) = 0
   \<and> localStorage (handleClick example_env example_page) ''cart'' = Some ''[]''
   \<and> cart (handleClick offline_env example_page) = [itemA, itemB]
   \<and> total (handleClick offline_env example_page) = 13
   \<and> localStorage (handleClick offline_env example_page) ''cart'' = Some textAB"
proof -
  have u: "user example_env = Some \<lparr>sub = Some ''auth0|42''\<rparr>"
    by (simp add: example_env_def)
  have u': "user offline_env = Some \<lparr>sub = Some ''auth0|42''\<rparr>"
    by (simp add: offline_env_def example_env_def)
  have s: "sub \<lparr>sub = Some ''auth0|42''\<rparr> = Some ''auth0|42''" by simp
  have n: "''auth0|42'' \<noteq> []" by simp
  have ok: "createrOrder example_env (orderItems (cart example_page)) ''auth0|42'' = None"
    by (simp add: example_env_def)
  have ko: "createrOrder offline_env (orderItems (cart example_page)) ''auth0|42''
      = Some (OtherError ''Network Error'')"
    by (simp add: offline_env_def)
  have j: "JSON_stringify example_env [] = ''[]''"
    by (simp add: example_env_def example_stringify_Nil)
  from handleClick_order_outcome [OF u s n, of example_page] ok j
  have a: "cart (handleClick example_env example_page) = []
   \<and> total (handleClick example_env example_page) = 0
   \<and> localStorage (handleClick example_env example_page) ''cart'' = Some ''[]''"
    by simp
  from handleClick_order_outcome [OF u' s n, of example_page] ko
  have b: "cart (handleClick offline_env example_page) = cart example_page
   \<and> total (handleClick offline_env example_page) = total example_page
   \<and> localStorage (handleClick offline_env example_page) = localStorage example_page"
    by simp
  from u a b show ?thesis by (simp add: example_page_def)
qed

text \<open>
  Claim C9: with no authenticated user, \<open>handleClick\<close> only navigates to the login route;
  with a user whose \<open>sub\<close> is missing or empty, it only opens the error dialog; with a user
  and an identifier, it calls \<open>createrOrder\<close> with the pairs of \<open>productId\<close> and
  \<open>quantity || 1\<close> of the cart and with that identifier; and it calls \<open>createrOrder\<close> in
  no other case and with nothing else.
\<close>

theorem handleClick_guards:
  "(user e = None \<longrightarrow>
      handleClick e s = s\<lparr>effects := effects s @ [RouterPush ''/api/auth/login'']\<rparr>)
   \<and> (\<forall>u. user e = Some u \<and> (sub u = None \<or> sub u = Some []) \<longrightarrow>
      handleClick e s = s\<lparr>effects := effects s @ [SwalFire UserIdError]\<rparr>
      \<and> icon UserIdError = ''error'')
   \<and> (\<forall>u userId. user e = Some u \<and> sub u = Some userId \<and> userId \<noteq> [] \<longrightarrow>
      (\<exists>rest. effects (handleClick e s)
         = effects s
           @ CreaterOrder
               (map (\<lambda>product. \<lparr>oi_productId = productId product,
                                  oi_quantity = quantity_or_1 product\<rparr>) (cart s))
               userId # rest))
   \<and> (\<forall>items uid.
        CreaterOrder items uid \<in> set (drop (length (effects s)) (effects (handleClick e s)))
        \<longrightarrow> (\<exists>u. user e = Some u \<and> sub u = Some uid \<and> uid \<noteq> []
                  \<and> items = orderItems (cart s)))"
proof (intro conjI allI impI)
  assume "user e = None"
  then show "handleClick e s = s\<lparr>effects := effects s @ [RouterPush ''/api/auth/login'']\<rparr>"
    by (rule handleClick_no_user)
next
  fix u
  assume "user e = Some u \<and> (sub u = None \<or> sub u = Some [])"
  then show "handleClick e s = s\<lparr>effects := effects s @ [SwalFire UserIdError]\<rparr>"
    by (simp add: handleClick_no_userId)
  show "icon UserIdError = ''error''" by simp
next
  fix u userId
  assume a: "user e = Some u \<and> sub u = Some userId \<and> userId \<noteq> []"
  then have "handleClick e s = submit e userId s" by (simp add: handleClick_submit)
  with submit_effects [of e userId s]
  show "\<exists>rest. effects (handleClick e s)
         = effects s
           @ CreaterOrder
               (map (\<lambda>product. \<lparr>oi_productId = productId product,
                                  oi_quantity = quantity_or_1 product\<rparr>) (cart s))
               userId # rest"
    by (auto simp: orderItems_def)
next
  fix items uid
  assume m: "CreaterOrder items uid
      \<in> set (drop (length (effects s)) (effects (handleClick e s)))"
  show "\<exists>u. user e = Some u \<and> sub u = Some uid \<and> uid \<noteq> [] \<and> items = orderItems (cart s)"
  proof (cases "user e")
    case None
    with m show ?thesis by (simp add: handleClick_no_user)
  next
    case (Some u)
    show ?thesis
    proof (cases "sub u = None \<or> sub u = Some []")
      case True
      with Some m show ?thesis by (simp add: handleClick_no_userId)
    next
      case False
      then obtain userId where u: "sub u = Some userId" "userId \<noteq> []" by auto
      with Some have h: "handleClick e s = submit e userId s" by (simp add: handleClick_submit)
      from submit_effects [of e userId s] obtain rest
        where r: "effects (submit e userId s)
            = effects s @ CreaterOrder (orderItems (cart s)) userId # rest"
          "\<forall>items uid. CreaterOrder items uid \<notin> set rest"
        by blast
      from m h r have "items = orderItems (cart s) \<and> uid = userId" by auto
      with Some u show ?thesis by simp
    qed
  qed
qed

theorem handleClick_guards_witness:
  "user anonymous_env = None
   \<and> handleClick anonymous_env example_page
       = example_page\<lparr>effects := [RouterPush ''/api/auth/login'']\<rparr>
   \<and> user no_sub_env = Some \<lparr>sub = None\<rparr>
   \<and> handleClick no_sub_env example_page
       = example_page\<lparr>effects := [SwalFire UserIdError]\<rparr>
   \<and> (\<exists>rest. effects (handleClick example_env example_page)
         = CreaterOrder [\<lparr>oi_productId = Some ''A'', oi_quantity = 2\<rparr>,
                         \<lparr>oi_productId = Some ''B'', oi_quantity = 1\<rparr>] ''auth0|42'' # rest)"
proof -
  have a: "user anonymous_env = None"
    by (simp add: anonymous_env_def)
  have b: "user no_sub_env = Some \<lparr>sub = None\<rparr>"
    by (simp add: no_sub_env_def)
  have c: "user example_env = Some \<lparr>sub = Some ''auth0|42''\<rparr>"
    by (simp add: example_env_def)
  have e: "effects example_page = []"
    by (simp add: example_page_def)
  from handleClick_guards [of anonymous_env example_page] a e
  have 1: "handleClick anonymous_env example_page
       = example_page\<lparr>effects := [RouterPush ''/api/auth/login'']\<rparr>"
    by simp
  from handleClick_guards [of no_sub_env example_page] b e
  have 2: "handleClick no_sub_env example_page
       = example_page\<lparr>effects := [SwalFire UserIdError]\<rparr>"
    by simp
  from handleClick_guards [of example_env example_page] c e
  have 3: "\<exists>rest. effects (handleClick example_env example_page)
         = CreaterOrder [\<lparr>oi_productId = Some ''A'', oi_quantity = 2\<rparr>,
                         \<lparr>oi_productId = Some ''B'', oi_quantity = 1\<rparr>] ''auth0|42'' # rest"
    by (simp add: example_page_def itemA_def itemB_def quantity_or_1_def)
  from a b 1 2 3 show ?thesis by blast
qed

subsection \<open>Checkout\<close>

lemma handleCheckout_parse_fails:
  "JSON_parse e (storedCartText s) = Inl err \<Longrightarrow>
   handleCheckout e s = s\<lparr>effects := effects s @ [ConsoleError (CaughtError err)]\<rparr>"
  by (simp add: handleCheckout_def emit_def)

lemma handleCheckout_falsy:
  "JSON_parse e (storedCartText s) = Inr None \<Longrightarrow>
   handleCheckout e s = s\<lparr>effects := effects s @ [ConsoleError EmptyCart]\<rparr>"
  by (simp add: handleCheckout_def emit_def)

lemma handleCheckout_empty:
  "JSON_parse e (storedCartText s) = Inr (Some []) \<Longrightarrow>
   handleCheckout e s = s\<lparr>effects := effects s @ [ConsoleError EmptyCart]\<rparr>"
  by (simp add: handleCheckout_def emit_def)

lemma handleCheckout_request:
  assumes "JSON_parse e (storedCartText s) = Inr (Some cartItems)" and "cartItems \<noteq> []"
  shows "handleCheckout e s =
     (case fetch e ''/api/checkout_sessions'' (checkoutPayload cartItems) of
        FetchFails err \<Rightarrow>
          s\<lparr>effects := effects s
               @ [FetchPost ''/api/checkout_sessions'' (checkoutPayload cartItems),
                  ConsoleError (CaughtError err)]\<rparr>
      | BodyFails err \<Rightarrow>
          s\<lparr>effects := effects s
               @ [FetchPost ''/api/checkout_sessions'' (checkoutPayload cartItems),
                  ConsoleError (CaughtError err)]\<rparr>
      | Response ok url error \<Rightarrow>
          if ok then
            s\<lparr>localStorage := (localStorage s)(''checkoutItems'' \<mapsto> JSON_stringify e cartItems),
              effects := effects s
               @ [FetchPost ''/api/checkout_sessions'' (checkoutPayload cartItems),
                  LocationHref url]\<rparr>
          else
            s\<lparr>effects := effects s
               @ [FetchPost ''/api/checkout_sessions'' (checkoutPayload cartItems),
                  ConsoleError (CheckoutSessionError error)]\<rparr>)"
  using assms
  by (simp add: handleCheckout_def emit_def setItem_def Let_def split: fetch_result.splits)

lemma handleCheckout_cart: "cart (handleCheckout e s) = cart s"
  by (simp add: handleCheckout_def emit_def setItem_def Let_def
      split: sum.splits option.splits fetch_result.splits)

lemma handleCheckout_total: "total (handleCheckout e s) = total s"
  by (simp add: handleCheckout_def emit_def setItem_def Let_def
      split: sum.splits option.splits fetch_result.splits)

lemma handleCheckout_persisted_cart:
  "localStorage (handleCheckout e s) ''cart'' = localStorage s ''cart''"
  by (simp add: handleCheckout_def emit_def setItem_def Let_def
      split: sum.splits option.splits fetch_result.splits)

lemma handleCheckout_only_on_success:
  assumes "localStorage (handleCheckout e s) \<noteq> localStorage s
      \<or> (\<exists>u. LocationHref u \<in> set (drop (length (effects s)) (effects (handleCheckout e s))))"
  shows "\<exists>cartItems url error.
      JSON_parse e (storedCartText s) = Inr (Some cartItems) \<and> cartItems \<noteq> []
      \<and> fetch e ''/api/checkout_sessions'' (checkoutPayload cartItems)
          = Response True url error
      \<and> localStorage (handleCheckout e s)
          = (localStorage s)(''checkoutItems'' \<mapsto> JSON_stringify e cartItems)
      \<and> drop (length (effects s)) (effects (handleCheckout e s))
          = [FetchPost ''/api/checkout_sessions'' (checkoutPayload cartItems),
             LocationHref url]"
proof (cases "JSON_parse e (storedCartText s)")
  case (Inl err)
  with assms show ?thesis by (simp add: handleCheckout_parse_fails)
next
  case (Inr v)
  show ?thesis
  proof (cases v)
    case None
    with Inr assms show ?thesis by (simp add: handleCheckout_falsy)
  next
    case (Some cartItems)
    show ?thesis
    proof (cases "cartItems = []")
      case True
      with Inr Some assms show ?thesis by (simp add: handleCheckout_empty)
    next
      case False
      with Inr Some have p: "JSON_parse e (storedCartText s) = Inr (Some cartItems)" by simp
      note r = handleCheckout_request [OF p False]
      show ?thesis
      proof (cases "fetch e ''/api/checkout_sessions'' (checkoutPayload cartItems)")
        case (FetchFails err)
        with r assms show ?thesis by simp
      next
        case (BodyFails err)
        with r assms show ?thesis by simp
      next
        case (Response ok url error)
        show ?thesis
        proof (cases ok)
          case True
          with Response r p False show ?thesis by simp
        next
          case False
          with Response r assms show ?thesis by simp
        qed
      qed
    qed
  qed
qed

text \<open>
  Claim C5: \<open>handleCheckout\<close> never changes the cart, the total or the persisted cart.
  When the request is issued and its answer is not a success response (the request fails,
  the body cannot be read, or \<open>response.ok\<close> is false), the local storage is unchanged
  and the only effects are the request and a logged diagnostic. The local storage changes,
  or the browser is redirected, only on a success response: then \<open>checkoutItems\<close> holds the
  text of the persisted items and the browser is sent to the returned URL.
\<close>

theorem handleCheckout_failure_keeps_state:
  "cart (handleCheckout e s) = cart s \<and> total (handleCheckout e s) = total s
   \<and> localStorage (handleCheckout e s) ''cart'' = localStorage s ''cart''
   \<and> (\<forall>cartItems. JSON_parse e (storedCartText s) = Inr (Some cartItems) \<and> cartItems \<noteq> []
        \<and> (\<forall>url error. fetch e ''/api/checkout_sessions'' (checkoutPayload cartItems)
                          \<noteq> Response True url error)
        \<longrightarrow> localStorage (handleCheckout e s) = localStorage s
            \<and> (\<exists>d. drop (length (effects s)) (effects (handleCheckout e s))
                   = [FetchPost ''/api/checkout_sessions'' (checkoutPayload cartItems),
                      ConsoleError d]))
   \<and> (localStorage (handleCheckout e s) \<noteq> localStorage s
        \<or> (\<exists>u. LocationHref u
                  \<in> set (drop (length (effects s)) (effects (handleCheckout e s))))
        \<longrightarrow> (\<exists>cartItems url error.
              JSON_parse e (storedCartText s) = Inr (Some cartItems) \<and> cartItems \<noteq> []
              \<and> fetch e ''/api/checkout_sessions'' (checkoutPayload cartItems)
                  = Response True url error
              \<and> localStorage (handleCheckout e s)
                  = (localStorage s)(''checkoutItems'' \<mapsto> JSON_stringify e cartItems)
              \<and> drop (length (effects s)) (effects (handleCheckout e s))
                  = [FetchPost ''/api/checkout_sessions'' (checkoutPayload cartItems),
                     LocationHref url]))"
proof (intro conjI allI impI)
  show "cart (handleCheckout e s) = cart s" by (rule handleCheckout_cart)
  show "total (handleCheckout e s) = total s" by (rule handleCheckout_total)
  show "localStorage (handleCheckout e s) ''cart'' = localStorage s ''cart''"
    by (rule handleCheckout_persisted_cart)
next
  fix cartItems
  assume a: "JSON_parse e (storedCartText s) = Inr (Some cartItems) \<and> cartItems \<noteq> []
        \<and> (\<forall>url error. fetch e ''/api/checkout_sessions'' (checkoutPayload cartItems)
                          \<noteq> Response True url error)"
  then have r: "handleCheckout e s =
     (case fetch e ''/api/checkout_sessions'' (checkoutPayload cartItems) of
        FetchFails err \<Rightarrow>
          s\<lparr>effects := effects s
               @ [FetchPost ''/api/checkout_sessions'' (checkoutPayload cartItems),
                  ConsoleError (CaughtError err)]\<rparr>
      | BodyFails err \<Rightarrow>
          s\<lparr>effects := effects s
               @ [FetchPost ''/api/checkout_sessions'' (checkoutPayload cartItems),
                  ConsoleError (CaughtError err)]\<rparr>
      | Response ok url error \<Rightarrow>
          if ok then
            s\<lparr>localStorage := (localStorage s)(''checkoutItems'' \<mapsto> JSON_stringify e cartItems),
              effects := effects s
               @ [FetchPost ''/api/checkout_sessions'' (checkoutPayload cartItems),
                  LocationHref url]\<rparr>
          else
            s\<lparr>effects := effects s
               @ [FetchPost ''/api/checkout_sessions'' (checkoutPayload cartItems),
                  ConsoleError (CheckoutSessionError error)]\<rparr>)"
    by (simp add: handleCheckout_request)
  from a r show "localStorage (handleCheckout e s) = localStorage s"
    by (cases "fetch e ''/api/checkout_sessions'' (checkoutPayload cartItems)") auto
  from a r show "\<exists>d. drop (length (effects s)) (effects (handleCheckout e s))
                   = [FetchPost ''/api/checkout_sessions'' (checkoutPayload cartItems),
                      ConsoleError d]"
    by (cases "fetch e ''/api/checkout_sessions'' (checkoutPayload cartItems)") auto
next
  assume "localStorage (handleCheckout e s) \<noteq> localStorage s
        \<or> (\<exists>u. LocationHref u
                  \<in> set (drop (length (effects s)) (effects (handleCheckout e s))))"
  then show "\<exists>cartItems url error.
              JSON_parse e (storedCartText s) = Inr (Some cartItems) \<and> cartItems \<noteq> []
              \<and> fetch e ''/api/checkout_sessions'' (checkoutPayload cartItems)
                  = Response True url error
              \<and> localStorage (handleCheckout e s)
                  = (localStorage s)(''checkoutItems'' \<mapsto> JSON_stringify e cartItems)
              \<and> drop (length (effects s)) (effects (handleCheckout e s))
                  = [FetchPost ''/api/checkout_sessions'' (checkoutPayload cartItems),
                     LocationHref url]"
    by (rule handleCheckout_only_on_success)
qed

theorem handleCheckout_failure_keeps_state_witness:
  "JSON_parse offline_env (storedCartText example_page) = Inr (Some [itemA, itemB])
   \<and> fetch offline_env ''/api/checkout_sessions'' (checkoutPayload [itemA, itemB])
       = FetchFails (OtherError ''Failed to fetch'')
   \<and> cart (handleCheckout offline_env example_page) = [itemA, itemB]
   \<and> localStorage (handleCheckout offline_env example_page) = localStorage example_page
   \<and> (\<exists>d. effects (handleCheckout offline_env example_page)
         = [FetchPost ''/api/checkout_sessions'' (checkoutPayload [itemA, itemB]),
            ConsoleError d])
   \<and> localStorage (handleCheckout example_env example_page)
       = (localStorage example_page)(''checkoutItems'' \<mapsto> textAB)
   \<and> effects (handleCheckout example_env example_page)
       = [FetchPost ''/api/checkout_sessions'' (checkoutPayload [itemA, itemB]),
          LocationHref (Some ''https://pay.example/session'')]"
proof -
  have p: "JSON_parse offline_env (storedCartText example_page) = Inr (Some [itemA, itemB])"
    by (simp add: offline_env_def example_env_def storedCartText_example_page
        example_parse_textAB)
  have f: "fetch offline_env ''/api/checkout_sessions'' (checkoutPayload [itemA, itemB])
       = FetchFails (OtherError ''Failed to fetch'')"
    by (simp add: offline_env_def)
  have e: "effects example_page = []" "cart example_page = [itemA, itemB]"
    by (simp_all add: example_page_def)
  from handleCheckout_failure_keeps_state [of offline_env example_page] p f e
  have 1: "cart (handleCheckout offline_env example_page) = [itemA, itemB]
   \<and> localStorage (handleCheckout offline_env example_page) = localStorage example_page
   \<and> (\<exists>d. effects (handleCheckout offline_env example_page)
         = [FetchPost ''/api/checkout_sessions'' (checkoutPayload [itemA, itemB]),
            ConsoleError d])"
    by simp
  have p': "JSON_parse example_env (storedCartText example_page) = Inr (Some [itemA, itemB])"
    by (simp add: example_env_def storedCartText_example_page example_parse_textAB)
  have f': "fetch example_env ''/api/checkout_sessions'' (checkoutPayload [itemA, itemB])
       = Response True (Some ''https://pay.example/session'') None"
    by (simp add: example_env_def)
  have j: "JSON_stringify example_env [itemA, itemB] = textAB"
    by (simp add: example_env_def example_stringify_AB)
  have "handleCheckout example_env example_page
      = example_page\<lparr>localStorage := (localStorage example_page)(''checkoutItems'' \<mapsto> textAB),
          effects := [FetchPost ''/api/checkout_sessions'' (checkoutPayload [itemA, itemB]),
                      LocationHref (Some ''https://pay.example/session'')]\<rparr>"
    using handleCheckout_request [OF p'] f' j e by simp
  then have r: "\<exists>u. LocationHref u
      \<in> set (drop (length (effects example_page))
                (effects (handleCheckout example_env example_page)))"
    using e by simp
  from handleCheckout_failure_keeps_state [of example_env example_page] r
  obtain cartItems url error where
    c: "JSON_parse example_env (storedCartText example_page) = Inr (Some cartItems)"
      "fetch example_env ''/api/checkout_sessions'' (checkoutPayload cartItems)
                  = Response True url error"
      "localStorage (handleCheckout example_env example_page)
          = (localStorage example_page)(''checkoutItems'' \<mapsto> JSON_stringify example_env cartItems)"
      "drop (length (effects example_page)) (effects (handleCheckout example_env example_page))
          = [FetchPost ''/api/checkout_sessions'' (checkoutPayload cartItems), LocationHref url]"
    by blast
  from c(1) p' have ci: "cartItems = [itemA, itemB]" by simp
  from c(2) f' ci have "url = Some ''https://pay.example/session''" by simp
  with c(3,4) ci j e
  have 2: "localStorage (handleCheckout example_env example_page)
       = (localStorage example_page)(''checkoutItems'' \<mapsto> textAB)
   \<and> effects (handleCheckout example_env example_page)
       = [FetchPost ''/api/checkout_sessions'' (checkoutPayload [itemA, itemB]),
          LocationHref (Some ''https://pay.example/session'')]"
    by simp
  from p f 1 2 show ?thesis by blast
qed

text \<open>
  Claim C6: if the key \<open>cart\<close> is absent from the local storage, or holds a text that
  parses to the empty sequence, then \<open>handleCheckout\<close> logs one diagnostic and does nothing
  else: no request, no change of state. (\<open>JSON.parse("[]")\<close> is the empty sequence.)
\<close>

theorem checkout_aborts_on_empty_cart:
  assumes "JSON_parse e ''[]'' = Inr (Some [])"
    and "localStorage s ''cart'' = None
       \<or> (\<exists>t. localStorage s ''cart'' = Some t \<and> JSON_parse e t = Inr (Some []))"
  shows "handleCheckout e s = s\<lparr>effects := effects s @ [ConsoleError EmptyCart]\<rparr>"
proof -
  from assms have "JSON_parse e (storedCartText s) = Inr (Some [])"
    by (auto simp: storedCartText_def)
  then show ?thesis by (rule handleCheckout_empty)
qed

theorem checkout_aborts_on_empty_cart_witness:
  "JSON_parse example_env ''[]'' = Inr (Some [])
   \<and> localStorage empty_page ''cart'' = None
   \<and> handleCheckout example_env empty_page
       = empty_page\<lparr>effects := [ConsoleError EmptyCart]\<rparr>
   \<and> localStorage (setItem ''cart'' ''[]'' empty_page) ''cart'' = Some ''[]''
   \<and> handleCheckout example_env (setItem ''cart'' ''[]'' empty_page)
       = (setItem ''cart'' ''[]'' empty_page)\<lparr>effects := [ConsoleError EmptyCart]\<rparr>"
proof -
  have p: "JSON_parse example_env ''[]'' = Inr (Some [])"
    by (simp add: example_env_def example_parse_brackets)
  have a: "localStorage empty_page ''cart'' = None"
    by (simp add: empty_page_def)
  have b: "localStorage (setItem ''cart'' ''[]'' empty_page) ''cart'' = Some ''[]''"
    by (simp add: setItem_def)
  have e: "effects empty_page = []" "effects (setItem ''cart'' ''[]'' empty_page) = []"
    by (simp_all add: empty_page_def setItem_def)
  from a have a': "localStorage empty_page ''cart'' = None
       \<or> (\<exists>t. localStorage empty_page ''cart'' = Some t
              \<and> JSON_parse example_env t = Inr (Some []))"
    by simp
  from b p have b': "localStorage (setItem ''cart'' ''[]'' empty_page) ''cart'' = None
       \<or> (\<exists>t. localStorage (setItem ''cart'' ''[]'' empty_page) ''cart'' = Some t
              \<and> JSON_parse example_env t = Inr (Some []))"
    by simp
  from checkout_aborts_on_empty_cart [OF p a'] e
  have 1: "handleCheckout example_env empty_page
       = empty_page\<lparr>effects := [ConsoleError EmptyCart]\<rparr>"
    by simp
  from checkout_aborts_on_empty_cart [OF p b'] e
  have 2: "handleCheckout example_env (setItem ''cart'' ''[]'' empty_page)
       = (setItem ''cart'' ''[]'' empty_page)\<lparr>effects := [ConsoleError EmptyCart]\<rparr>"
    by simp
  from p a b 1 2 show ?thesis by blast
qed

subsection \<open>Loading the cart\<close>

lemma load_absent:
  assumes "window_localStorage e" and "JSON_parse e ''[]'' = Inr (Some [])"
    and "localStorage s ''cart'' = None \<or> localStorage s ''cart'' = Some []"
  shows "load e s = Inr (s\<lparr>cart := [], total := 0\<rparr>)"
  using assms by (auto simp: load_def storedCartText_def calculateTotal_def totalCart_Nil)

lemma load_parsed:
  assumes "window_localStorage e" and "localStorage s ''cart'' = Some t" and "t \<noteq> []"
    and "JSON_parse e t = Inr (Some storedCart)"
  shows "load e s = Inr (s\<lparr>cart := storedCart, total := totalCart storedCart\<rparr>)"
  using assms by (simp add: load_def storedCartText_def calculateTotal_def)

text \<open>
  Claim C2 says that the effect at page entry never raises and takes a malformed persisted
  text for the empty cart. The two lemmas above are the part that holds: an absent (or
  empty) text gives the empty cart and the total 0, and a text that parses gives the parsed
  cart and its total. The rest does not hold of the page: \<open>JSON.parse\<close> is called outside
  any \<open>try\<close>, so whenever the persisted text is not empty and \<open>JSON.parse\<close> raises on
  it, the effect raises the same error and sets neither the cart nor the total. The
  sibling \<open>handleCheckout\<close> parses the same text inside \<open>try\<close> (lemma
  \<open>handleCheckout_parse_fails\<close>).
\<close>

theorem load_malformed_raises:
  assumes "window_localStorage e" and "localStorage s ''cart'' = Some t" and "t \<noteq> []"
    and "JSON_parse e t = Inl err"
  shows "load e s = Inl err"
  using assms by (simp add: load_def storedCartText_def)

theorem load_malformed_raises_witness:
  "window_localStorage example_env
   \<and> localStorage broken_page ''cart'' = Some ''{''
   \<and> JSON_parse example_env ''{'' = Inl SyntaxError
   \<and> load example_env broken_page = Inl SyntaxError"
proof -
  have w: "window_localStorage example_env"
    by (simp add: example_env_def)
  have l: "localStorage broken_page ''cart'' = Some ''{''"
    by (simp add: broken_page_def)
  have n: "''{'' \<noteq> []" by simp
  have p: "JSON_parse example_env ''{'' = Inl SyntaxError"
    by (simp add: example_env_def example_parse_brace)
  from load_malformed_raises [OF w l n p] w l p show ?thesis by blast
qed

subsection \<open>The total in the states the page reaches\<close>

lemma load_total:
  "load e s = Inr s' \<Longrightarrow> total s = totalCart (cart s) \<Longrightarrow> total s' = totalCart (cart s')"
  by (auto simp: load_def calculateTotal_def split: if_splits sum.splits option.splits)

lemma handleClick_total:
  "total s = totalCart (cart s) \<Longrightarrow> total (handleClick e s) = totalCart (cart (handleClick e s))"
  by (auto simp: handleClick_def submit_def emit_def updateLocalStorage_def setItem_def
      Let_def totalCart_Nil split: option.splits)

lemma reachable_total: "reachable s \<Longrightarrow> total s = totalCart (cart s)"
proof (induction rule: reachable.induct)
  case (init st)
  show ?case by (simp add: totalCart_Nil)
next
  case (loaded s e s')
  then show ?case by (simp add: load_total)
next
  case (removed s e pid)
  show ?case by (rule handleRemoveFromCart_total)
next
  case (changed s e pid delta)
  show ?case by (rule handleQuantityChange_total)
next
  case (clicked s e)
  then show ?case by (simp add: handleClick_total)
next
  case (checked_out s e)
  then show ?case by (simp add: handleCheckout_cart handleCheckout_total)
qed

subsection \<open>Missing quantities and prices that are not numbers\<close>

lemma orderItems_nth:
  "orderItems (xs @ item # ys) ! length xs
     = \<lparr>oi_productId = productId item, oi_quantity = quantity_or_1 item\<rparr>"
  by (simp add: orderItems_def nth_append)

lemma checkoutPayload_nth:
  "checkoutPayload (xs @ item # ys) ! length xs
     = \<lparr>ci_productId = productId item, ci_name = name item, ci_imgUrl = imgUrl item,
        ci_price = price item, ci_quantity = quantity_or_1 item\<rparr>"
  by (simp add: checkoutPayload_def nth_append)

lemma totalCart_middle:
  "totalCart (xs @ item # ys)
     = totalCart xs + price_or_0 item * quantity_or_1 item + totalCart ys"
  by (simp add: totalCart_sum_list)

lemma quantity_or_1_falsy:
  "quantity item = None \<or> quantity item = Some 0 \<Longrightarrow> quantity_or_1 item = 1"
  by (auto simp: quantity_or_1_def)

lemma price_or_0_not_number: "\<forall>p. price item \<noteq> JNumber p \<Longrightarrow> price_or_0 item = 0"
  by (cases "price item") (simp_all add: price_or_0_def)

text \<open>
  Claim C10: for every line item whose quantity is missing or 0, wherever it stands in the
  cart, the total counts it as price \<times> 1, the order payload and the checkout payload
  carry the quantity 1 for it, and a change of quantity starts from 1; and a line item
  whose price is not a number adds 0 to the total.
\<close>

theorem falsy_quantity_is_1:
  "(quantity item = None \<or> quantity item = Some 0 \<longrightarrow>
      totalCart (xs @ item # ys) = totalCart xs + price_or_0 item * 1 + totalCart ys
      \<and> orderItems (xs @ item # ys) ! length xs
          = \<lparr>oi_productId = productId item, oi_quantity = 1\<rparr>
      \<and> checkoutPayload (xs @ item # ys) ! length xs
          = \<lparr>ci_productId = productId item, ci_name = name item, ci_imgUrl = imgUrl item,
             ci_price = price item, ci_quantity = 1\<rparr>
      \<and> (productId item = Some pid \<and> 1 + delta \<le> stock item \<longrightarrow>
            fst (changeItem pid delta item) = item\<lparr>quantity := Some (max (1 + delta) 1)\<rparr>))
   \<and> ((\<forall>p. price item \<noteq> JNumber p) \<longrightarrow>
      totalCart (xs @ item # ys) = totalCart xs + totalCart ys)"
proof (intro conjI impI)
  assume f: "quantity item = None \<or> quantity item = Some 0"
  then have q: "quantity_or_1 item = 1" by (rule quantity_or_1_falsy)
  from q show "totalCart (xs @ item # ys) = totalCart xs + price_or_0 item * 1 + totalCart ys"
    by (simp add: totalCart_middle)
  from q show "orderItems (xs @ item # ys) ! length xs
          = \<lparr>oi_productId = productId item, oi_quantity = 1\<rparr>"
    by (simp add: orderItems_nth)
  from q show "checkoutPayload (xs @ item # ys) ! length xs
          = \<lparr>ci_productId = productId item, ci_name = name item, ci_imgUrl = imgUrl item,
             ci_price = price item, ci_quantity = 1\<rparr>"
    by (simp add: checkoutPayload_nth)
  assume "productId item = Some pid \<and> 1 + delta \<le> stock item"
  with q show "fst (changeItem pid delta item) = item\<lparr>quantity := Some (max (1 + delta) 1)\<rparr>"
    by (simp add: changeItem_committed)
next
  assume "\<forall>p. price item \<noteq> JNumber p"
  then have "price_or_0 item = 0" by (rule price_or_0_not_number)
  then show "totalCart (xs @ item # ys) = totalCart xs + totalCart ys"
    by (simp add: totalCart_middle)
qed

theorem falsy_quantity_is_1_witness:
  "quantity item_bare = None \<and> price item_bare = JString ''12''
   \<and> totalCart [itemA, item_bare, itemB] = totalCart [itemA] + totalCart [itemB]
   \<and> orderItems [itemA, item_bare, itemB] ! 1 = \<lparr>oi_productId = Some ''C'', oi_quantity = 1\<rparr>
   \<and> ci_quantity (checkoutPayload [itemA, item_bare, itemB] ! 1) = 1
   \<and> totalCart [itemA, item_q0, itemB] = totalCart [itemA] + 5 * 1 + totalCart [itemB]"
proof -
  have a: "quantity item_bare = None" "price item_bare = JString ''12''"
    "productId item_bare = Some ''C''"
    by (simp_all add: item_bare_def)
  have b: "quantity item_q0 = Some 0" "price_or_0 item_q0 = 5"
    by (simp_all add: item_q0_def price_or_0_def)
  have n: "\<forall>p. price item_bare \<noteq> JNumber p" by (simp add: a)
  note t1 = falsy_quantity_is_1
    [where item = item_bare and xs = "[itemA]" and ys = "[itemB]" and pid = "''C''" and delta = 1]
  note t2 = falsy_quantity_is_1
    [where item = item_q0 and xs = "[itemA]" and ys = "[itemB]" and pid = "''A''" and delta = 1]
  from t1 a n have 1: "totalCart [itemA, item_bare, itemB] = totalCart [itemA] + totalCart [itemB]"
    by simp
  from t1 a have 2: "orderItems [itemA, item_bare, itemB] ! 1
      = \<lparr>oi_productId = Some ''C'', oi_quantity = 1\<rparr>"
    by simp
  from t1 a have 3: "ci_quantity (checkoutPayload [itemA, item_bare, itemB] ! 1) = 1"
    by simp
  from t2 b have 4: "totalCart [itemA, item_q0, itemB] = totalCart [itemA] + 5 * 1 + totalCart [itemB]"
    by simp
  from a 1 2 3 4 show ?thesis by blast
qed

end
